theory Spec2Isabelle
  imports Main "HOL-Library.Word"
begin

unbundle bit_operations_syntax

section \<open>Errors and panics\<close>

text \<open>
  A Go \<open>error\<close> value is identified by its message (\<open>err.Error()\<close>); the \<open>nil\<close>
  error is \<open>None\<close> of \<open>error option\<close>. A run-time panic of the Go program is a value
  of its own.
\<close>

datatype error = Error string

datatype panic = AssignmentToNilMap | IndexOutOfRange

section \<open>The SHA-1 hex digest (\<open>fmt.Sprintf("%x", sha1.Sum([]byte(value)))\<close>)\<close>

text \<open>
  \<open>sha1.Sum\<close> belongs to Go's standard library, not to this program. It is embedded
  here in full, after FIPS 180-4: padding to 64-byte blocks, the 80-word message
  schedule, the 80 rounds, and the five 32-bit state words written out big-endian as
  20 bytes. \<open>%x\<close> prints each byte as two lower-case hexadecimal digits.
\<close>

type_synonym byte = "8 word"
type_synonym u32 = "32 word"

definition be_bytes32 :: "u32 \<Rightarrow> byte list" where
  "be_bytes32 w = [ucast (drop_bit 24 w), ucast (drop_bit 16 w), ucast (drop_bit 8 w), ucast w]"

definition be_bytes64 :: "64 word \<Rightarrow> byte list" where
  "be_bytes64 w = map (\<lambda>i. ucast (drop_bit (8 * (7 - i)) w)) [0..<8]"

definition be_word32 :: "byte list \<Rightarrow> u32" where
  "be_word32 bs = foldl (\<lambda>acc b. push_bit 8 acc OR ucast b) 0 (take 4 bs)"

definition sha1_pad :: "byte list \<Rightarrow> byte list" where
  "sha1_pad msg =
     msg @ [0x80] @ replicate ((119 - length msg mod 64) mod 64) 0
         @ be_bytes64 (of_nat (8 * length msg))"

fun chunks :: "nat \<Rightarrow> 'a list \<Rightarrow> 'a list list" where
  "chunks n [] = []"
| "chunks n (x # xs) =
     (if n = 0 then [] else take n (x # xs) # chunks n (drop n (x # xs)))"

fun sha1_schedule :: "nat \<Rightarrow> u32 list \<Rightarrow> u32 list" where
  "sha1_schedule 0 w = w"
| "sha1_schedule (Suc n) w =
     (let i = length w
      in sha1_schedule n
           (w @ [word_rotl 1 (w ! (i - 3) XOR w ! (i - 8) XOR w ! (i - 14) XOR w ! (i - 16))]))"

type_synonym sha1_state = "u32 \<times> u32 \<times> u32 \<times> u32 \<times> u32"

definition sha1_round :: "nat \<Rightarrow> u32 \<Rightarrow> sha1_state \<Rightarrow> sha1_state" where
  "sha1_round i wi s =
     (case s of (a, b, c, d, e) \<Rightarrow>
        let (f, k) =
              (if i < 20 then ((b AND c) OR (NOT b AND d), 0x5A827999)
               else if i < 40 then (b XOR c XOR d, 0x6ED9EBA1)
               else if i < 60 then ((b AND c) OR (b AND d) OR (c AND d), 0x8F1BBCDC)
               else (b XOR c XOR d, 0xCA62C1D6));
            t = word_rotl 5 a + f + e + k + wi
        in (t, a, word_rotl 30 b, c, d))"

definition sha1_block :: "sha1_state \<Rightarrow> byte list \<Rightarrow> sha1_state" where
  "sha1_block h blk =
     (let w = sha1_schedule 64 (map be_word32 (chunks 4 blk));
          r = fold (\<lambda>(i, wi). sha1_round i wi) (zip [0..<80] w) h
      in case (h, r) of ((h0, h1, h2, h3, h4), (a, b, c, d, e)) \<Rightarrow>
           (h0 + a, h1 + b, h2 + c, h3 + d, h4 + e))"

definition sha1_init :: sha1_state where
  "sha1_init = (0x67452301, 0xEFCDAB89, 0x98BADCFE, 0x10325476, 0xC3D2E1F0)"

definition sha1_Sum :: "byte list \<Rightarrow> byte list" where
  "sha1_Sum msg =
     (case fold (\<lambda>blk h. sha1_block h blk) (chunks 64 (sha1_pad msg)) sha1_init of
        (h0, h1, h2, h3, h4) \<Rightarrow> concat (map be_bytes32 [h0, h1, h2, h3, h4]))"

definition hexdigit :: "nat \<Rightarrow> char" where
  "hexdigit n = ''0123456789abcdef'' ! (n mod 16)"

definition hex_byte :: "byte \<Rightarrow> string" where
  "hex_byte b = [hexdigit (unat b div 16), hexdigit (unat b mod 16)]"

definition sha1_hex :: "string \<Rightarrow> string" where
  "sha1_hex v = concat (map hex_byte (sha1_Sum (map of_char v)))"

section \<open>The hash pattern (\<open>regexp.MatchString("[0-9a-fA-F]{40}", value)\<close>)\<close>

text \<open>
  The pattern has no anchors, so \<open>MatchString\<close> reports whether some substring of the
  value matches: 40 consecutive hexadecimal digits starting at some offset. The pattern
  is a constant that compiles, so the call never returns an error.
\<close>

definition isHexDigit :: "char \<Rightarrow> bool" where
  "isHexDigit c \<longleftrightarrow> c \<in> set ''0123456789abcdefABCDEF''"

definition MatchString_hex40 :: "string \<Rightarrow> bool" where
  "MatchString_hex40 s \<longleftrightarrow>
     list_ex (\<lambda>i. i + 40 \<le> length s \<and> list_all isHexDigit (take 40 (drop i s)))
       [0..<Suc (length s)]"

section \<open>The activity value cache (main.go)\<close>

text \<open>
  A \<open>time.Time\<close> is the number of seconds since the epoch; \<open>Second\<close> is the second
  offset within the minute, which Go documents to lie in 0..59.
\<close>

type_synonym go_time = int

definition Second :: "go_time \<Rightarrow> int" where
  "Second t = t mod 60"

definition ActivityCacheSeconds :: int where
  "ActivityCacheSeconds = 300"

record CachedValue =
  Time :: go_time
  Value :: string

type_synonym value_cache = "string \<rightharpoonup> CachedValue"

text \<open>
  \<open>ActivityValuesBySha1\<close>: a map from activity name to that activity's cache. Indexing
  it with an unknown activity yields the nil map, which reads as empty and panics on
  assignment.
\<close>

type_synonym value_caches = "string \<rightharpoonup> value_cache"

definition ActivityValuesBySha1_init :: value_caches where
  "ActivityValuesBySha1_init =
     [''LoadBalancingVmActivities.setLoadBalancer'' \<mapsto> Map.empty,
      ''LoadBalancingVmActivities.setPolicy'' \<mapsto> Map.empty]"

definition staleKey :: "go_time \<Rightarrow> CachedValue \<Rightarrow> bool" where
  "staleKey timeNow cachedValue \<longleftrightarrow>
     Second timeNow > Second (Time cachedValue) + ActivityCacheSeconds"

definition cacheMaintain :: "string \<Rightarrow> go_time \<Rightarrow> value_caches \<Rightarrow> value_caches" where
  "cacheMaintain activity timeNow caches =
     (case caches activity of
        None \<Rightarrow> caches
      | Some valueCache \<Rightarrow>
          caches(activity \<mapsto>
            (\<lambda>key. case valueCache key of
                      None \<Rightarrow> None
                    | Some cachedValue \<Rightarrow>
                        if staleKey timeNow cachedValue then None else Some cachedValue)))"

text \<open>Reading \<open>ActivityValuesBySha1[activity]\<close>: the activity's cache, or the nil map,
  in which no key is found.\<close>

definition nilable :: "value_cache option \<Rightarrow> value_cache" where
  "nilable m = (case m of None \<Rightarrow> Map.empty | Some valueCache \<Rightarrow> valueCache)"

definition activityValueCache ::
  "string \<Rightarrow> string \<Rightarrow> go_time \<Rightarrow> value_caches \<Rightarrow> panic + (string \<times> value_caches)" where
  "activityValueCache activity value timeNow caches =
     (let valueCache = nilable (caches activity);
          (value', valueSha1) =
             (if MatchString_hex40 value then
                (case valueCache value of
                   Some cachedValue \<Rightarrow> (Value cachedValue, value)
                 | None \<Rightarrow> ('''', value))
              else (value, sha1_hex value))
      in if value' \<noteq> '''' then
           (case caches activity of
              None \<Rightarrow> Inl AssignmentToNilMap
            | Some vc \<Rightarrow>
                Inr (value',
                     cacheMaintain activity timeNow
                       (caches(activity \<mapsto>
                          vc(valueSha1 \<mapsto> \<lparr>Time = timeNow, Value = value'\<rparr>)))))
         else Inr (value', cacheMaintain activity timeNow caches))"

text \<open>The cache states the program can be in: it starts as declared and only
  \<open>activityValueCache\<close> (which runs \<open>cacheMaintain\<close>) and \<open>cacheMaintain\<close> change it.\<close>

inductive reachable :: "value_caches \<Rightarrow> bool" where
  initial: "reachable ActivityValuesBySha1_init"
| cached: "reachable caches \<Longrightarrow>
           activityValueCache activity value timeNow caches = Inr (result, caches') \<Longrightarrow>
           reachable caches'"
| maintained: "reachable caches \<Longrightarrow> reachable (cacheMaintain activity timeNow caches)"

definition key_is_digest :: "value_caches \<Rightarrow> bool" where
  "key_is_digest caches \<longleftrightarrow>
     (\<forall>activity valueCache key cachedValue.
        caches activity = Some valueCache \<longrightarrow> valueCache key = Some cachedValue \<longrightarrow>
        key = sha1_hex (Value cachedValue))"

section \<open>Activity descriptions (credentials.go)\<close>

record ActivityPolicyAttribute =
  AttributeName :: string
  AttributeValue :: string

record ActivityPolicy =
  PolicyName :: string
  PolicyTypeName :: string
  PolicyAttributes :: "ActivityPolicyAttribute list"

text \<open>The listener's \<open>InstancePort\<close> and \<open>PolicyNames\<close> carry the prefix \<open>Listener\<close>
  here, to keep them apart from the backend server's fields of the same names.\<close>

record ActivityLoadBalancerListener =
  Protocol :: string
  LoadBalancerPort :: "32 word"
  InstanceProtocol :: string
  ListenerInstancePort :: "32 word"
  ListenerPolicyNames :: "string list"

record ActivityBackendServer =
  InstancePort :: "32 word"
  PolicyNames :: "string list"

record ActivityBackendInstance =
  InstanceId :: string
  InstanceIpAddress :: string
  ReportHealthCheck :: bool

record ActivityHealthCheck =
  Target :: string
  Interval :: "32 word"
  Timeout :: "32 word"
  UnhealthyThreshold :: string
  HealthyThreshold :: string

record ActivityConnectionSettings =
  IdleTimeout :: "32 word"

record ActivityLoadBalancerAttributes =
  CrossZoneLoadBalancing :: bool
  AccessLog :: bool
  ConnectionDraining :: bool
  ConnectionSettings :: ActivityConnectionSettings

record ActivityLoadBalancer =
  LoadBalancerName :: string
  DNSName :: string
  Scheme :: string
  VPCId :: string
  Subnets :: "string list"
  AvailabilityZones :: "string list"
  Listeners :: "ActivityLoadBalancerListener list"
  PolicyDescriptions :: "ActivityPolicy list"
  BackendServers :: "ActivityBackendServer list"
  BackendInstances :: "ActivityBackendInstance list"
  SecurityGroups :: "string list"
  SourceSecurityGroup :: string
  HealthCheck :: ActivityHealthCheck
  CreatedTime :: go_time
  LoadBalancerAttributes :: ActivityLoadBalancerAttributes

record ActivityDescriptions =
  LoadBalancers :: "ActivityLoadBalancer list"

text \<open>
  The zero value of the load-balancer struct, which \<open>xml.Unmarshal\<close> leaves in every
  field the document does not mention. The zero \<open>time.Time\<close> is the first second of
  year 1, 62135596800 seconds before the epoch.
\<close>

definition zero_ActivityLoadBalancer :: ActivityLoadBalancer where
  "zero_ActivityLoadBalancer =
     \<lparr>LoadBalancerName = '''', DNSName = '''', Scheme = '''', VPCId = '''', Subnets = [],
      AvailabilityZones = [], Listeners = [], PolicyDescriptions = [], BackendServers = [],
      BackendInstances = [], SecurityGroups = [], SourceSecurityGroup = '''',
      HealthCheck = \<lparr>Target = '''', Interval = 0, Timeout = 0, UnhealthyThreshold = '''',
                     HealthyThreshold = ''''\<rparr>,
      CreatedTime = - 62135596800,
      LoadBalancerAttributes =
        \<lparr>CrossZoneLoadBalancing = False, AccessLog = False, ConnectionDraining = False,
         ConnectionSettings = \<lparr>IdleTimeout = 0\<rparr>\<rparr>\<rparr>"

section \<open>The template-file handler (haproxy_manager.go)\<close>

text \<open>
  The handler struct holds the two closures of the source. Each is called at most once
  per \<open>Send\<close>, so it is given by its outcome for that call: the template text or an
  error, and for each configuration text \<open>nil\<close> or an error.
\<close>

record HaproxyConfigurationHandler =
  TemplateSupplier :: "error + string"
  ConfigurationReceiver :: "string \<Rightarrow> error option"

text \<open>
  What the handler uses and this repository does not define: \<open>xml.Unmarshal\<close> behind
  \<open>ActivityDescriptionsString\<close>, the HAProxy configuration parser behind
  \<open>HaproxyConfigurationString\<close>, \<open>UpdateConfiguration\<close> and \<open>String\<close> (with \<open>'cfg\<close> the
  parsed configuration), and the order in which the Go runtime's \<open>range\<close> yields the
  entries of the map \<open>activePolicyNames\<close>, which the language leaves unspecified.
\<close>

record 'cfg runtime =
  ActivityDescriptionsString :: "string \<Rightarrow> error + ActivityDescriptions"
  HaproxyConfigurationString :: "string \<Rightarrow> error + 'cfg"
  UpdateConfiguration :: "'cfg \<Rightarrow> ActivityLoadBalancer \<Rightarrow> error + 'cfg"
  String :: "'cfg \<Rightarrow> string"
  rangeOrder :: "string list"

text \<open>\<open>rangeOrder\<close> is an iteration order of a map when it lists every key once.\<close>

definition iterates :: "'k list \<Rightarrow> ('k \<rightharpoonup> 'v) \<Rightarrow> bool" where
  "iterates ks m \<longleftrightarrow> distinct ks \<and> set ks = dom m"

text \<open>
  The state the handler works on: the global \<open>PolicyCache.Policies\<close>, and a record of
  the calls made to the closures and to the configuration parser, in order.
\<close>

datatype call =
    Call_TemplateSupplier
  | Call_HaproxyConfigurationString string
  | Call_UpdateConfiguration ActivityLoadBalancer
  | Call_ConfigurationReceiver string

record engine =
  Policies :: "string \<rightharpoonup> ActivityPolicy"
  calls :: "call list"

definition called :: "call \<Rightarrow> engine \<Rightarrow> engine" where
  "called c st = st\<lparr>calls := calls st @ [c]\<rparr>"

definition HandlePolicy ::
  "'cfg runtime \<Rightarrow> string \<Rightarrow> engine \<Rightarrow> error option \<times> engine" where
  "HandlePolicy rt policy st =
     (case ActivityDescriptionsString rt policy of
        Inl err \<Rightarrow> (Some err, st)
      | Inr activityDescriptions \<Rightarrow>
          if length (LoadBalancers activityDescriptions) = 1 \<and>
             length (PolicyDescriptions (LoadBalancers activityDescriptions ! 0)) = 1
          then
            let activityPolicy = PolicyDescriptions (LoadBalancers activityDescriptions ! 0) ! 0;
                name = PolicyName activityPolicy
            in (None, st\<lparr>Policies := (Policies st)(name \<mapsto> activityPolicy)\<rparr>)
          else (None, st))"

definition RetainOnly ::
  "(string \<rightharpoonup> string) \<Rightarrow> (string \<rightharpoonup> ActivityPolicy) \<Rightarrow> (string \<rightharpoonup> ActivityPolicy)" where
  "RetainOnly retainKeys policies =
     (\<lambda>policyName. if policyName \<in> dom policies \<and> retainKeys policyName = None
                    then None else policies policyName)"

definition WriteConfiguration ::
  "HaproxyConfigurationHandler \<Rightarrow> 'cfg runtime \<Rightarrow> ActivityLoadBalancer \<Rightarrow> engine
     \<Rightarrow> error option \<times> engine" where
  "WriteConfiguration handler rt loadBalancer st =
     (let st1 = called Call_TemplateSupplier st
      in case TemplateSupplier handler of
           Inl err \<Rightarrow> (Some err, st1)
         | Inr configuration \<Rightarrow>
             let st2 = called (Call_HaproxyConfigurationString configuration) st1
             in case HaproxyConfigurationString rt configuration of
                  Inl err \<Rightarrow> (Some err, st2)
                | Inr haproxyConfiguration \<Rightarrow>
                    let st3 = called (Call_UpdateConfiguration loadBalancer) st2
                    in case UpdateConfiguration rt haproxyConfiguration loadBalancer of
                         Inl err \<Rightarrow> (Some err, st3)
                       | Inr updated \<Rightarrow>
                           (ConfigurationReceiver handler (String rt updated),
                            called (Call_ConfigurationReceiver (String rt updated)) st3))"

text \<open>The policy names in the order in which the two loops of lines 127 to 136 come
  across them: every listener's names, then every backend server's.\<close>

definition scanPolicyNames :: "ActivityLoadBalancer \<Rightarrow> string list" where
  "scanPolicyNames loadBalancer =
     concat (map ListenerPolicyNames (Listeners loadBalancer)) @
     concat (map PolicyNames (BackendServers loadBalancer))"

text \<open>Lines 126 to 136: those two loops, which enter each name into the map
  \<open>activePolicyNames\<close> as key and as value.\<close>

definition activePolicyNames :: "ActivityLoadBalancer \<Rightarrow> (string \<rightharpoonup> string)" where
  "activePolicyNames loadBalancer =
     fold (\<lambda>backend. fold (\<lambda>policyName m. m(policyName \<mapsto> policyName)) (PolicyNames backend))
       (BackendServers loadBalancer)
       (fold (\<lambda>listener.
                fold (\<lambda>policyName m. m(policyName \<mapsto> policyName)) (ListenerPolicyNames listener))
          (Listeners loadBalancer) Map.empty)"

text \<open>Lines 137 to 143: the loop over the values of \<open>activePolicyNames\<close>; it returns at
  the first name the registry does not hold.\<close>

fun attachPolicies ::
  "(string \<rightharpoonup> ActivityPolicy) \<Rightarrow> string list \<Rightarrow> ActivityLoadBalancer
     \<Rightarrow> error + ActivityLoadBalancer" where
  "attachPolicies policies [] loadBalancer = Inr loadBalancer"
| "attachPolicies policies (policyName # rest) loadBalancer =
     (case policies policyName of
        Some activePolicy \<Rightarrow>
          attachPolicies policies rest
            (loadBalancer\<lparr>PolicyDescriptions := PolicyDescriptions loadBalancer @ [activePolicy]\<rparr>)
      | None \<Rightarrow> Inl (Error (''policy not found '' @ policyName)))"

definition HandleLoadBalancer ::
  "HaproxyConfigurationHandler \<Rightarrow> 'cfg runtime \<Rightarrow> string \<Rightarrow> engine \<Rightarrow> error option \<times> engine" where
  "HandleLoadBalancer handler rt loadBalancer st =
     (case ActivityDescriptionsString rt loadBalancer of
        Inl err \<Rightarrow> (Some err, st)
      | Inr activityDescriptions \<Rightarrow>
          if length (LoadBalancers activityDescriptions) = 1 \<and>
             length (PolicyDescriptions (LoadBalancers activityDescriptions ! 0)) = 0
          then
            let loadBalancer = LoadBalancers activityDescriptions ! 0;
                names = activePolicyNames loadBalancer
            in case attachPolicies (Policies st) (List.map_filter names (rangeOrder rt)) loadBalancer of
                 Inl err \<Rightarrow> (Some err, st)
               | Inr resolved \<Rightarrow>
                   WriteConfiguration handler rt resolved
                     (st\<lparr>Policies := RetainOnly names (Policies st)\<rparr>)
          else (None, st))"

definition HaproxyConfigurationHandler_Send ::
  "HaproxyConfigurationHandler \<Rightarrow> 'cfg runtime \<Rightarrow> string \<Rightarrow> string \<Rightarrow> engine
     \<Rightarrow> error option \<times> engine" where
  "HaproxyConfigurationHandler_Send handler rt name value st =
     (if name = ''set-policy'' then HandlePolicy rt value st
      else if name = ''set-loadbalancer'' then HandleLoadBalancer handler rt value st
      else (None, st))"

definition HaproxyConfigurationHandler_Receive :: "string \<Rightarrow> error + string" where
  "HaproxyConfigurationHandler_Receive name = Inl (Error ''not supported'')"

text \<open>
  The two snapshot shapes the spec names, in its words. Policy-only: exactly one load
  balancer, exactly one policy, and no other load-balancer-level data, that is, every
  other field of the load balancer is as the decoder leaves a field the document does
  not mention. Load-balancer: exactly one load balancer, with no policy attached.
\<close>

definition policy_only :: "ActivityDescriptions \<Rightarrow> bool" where
  "policy_only d \<longleftrightarrow>
     (case LoadBalancers d of
        [lb] \<Rightarrow> length (PolicyDescriptions lb) = 1 \<and>
                lb\<lparr>PolicyDescriptions := []\<rparr> = zero_ActivityLoadBalancer
      | _ \<Rightarrow> False)"

definition load_balancer_only :: "ActivityDescriptions \<Rightarrow> bool" where
  "load_balancer_only d \<longleftrightarrow>
     (case LoadBalancers d of [lb] \<Rightarrow> PolicyDescriptions lb = [] | _ \<Rightarrow> False)"

text \<open>The test \<open>HandlePolicy\<close> makes on lines 110 to 112: one load balancer and one
  policy on it, whatever else the load balancer carries.\<close>

definition one_load_balancer_one_policy :: "ActivityDescriptions \<Rightarrow> bool" where
  "one_load_balancer_one_policy d \<longleftrightarrow>
     length (LoadBalancers d) = 1 \<and>
     length (PolicyDescriptions (LoadBalancers d ! 0)) = 1"

text \<open>The order the spec asks of the attached policies, in its words: each name once,
  at its first occurrence in the scan.\<close>

fun first_occurrences :: "'a list \<Rightarrow> 'a list \<Rightarrow> 'a list" where
  "first_occurrences seen [] = []"
| "first_occurrences seen (x # xs) =
     (if x \<in> set seen then first_occurrences seen xs
      else x # first_occurrences (x # seen) xs)"

section \<open>The composite handler\<close>

text \<open>
  The \<open>ActivityHandler\<close> interface over a world \<open>'w\<close> that the handlers act on. A
  handler's \<open>Send\<close> returns its error and the world it leaves.
\<close>

record 'w ActivityHandler =
  Send :: "string \<Rightarrow> string \<Rightarrow> 'w \<Rightarrow> error option \<times> 'w"
  Receive :: "string \<Rightarrow> 'w \<Rightarrow> (error + string) \<times> 'w"
  Close :: "'w \<Rightarrow> 'w"

definition NewCompositeHandler ::
  "'w ActivityHandler \<Rightarrow> 'w ActivityHandler list \<Rightarrow> 'w ActivityHandler list" where
  "NewCompositeHandler primary secondaries = [primary] @ secondaries"

definition CompositeHandler_Send ::
  "'w ActivityHandler list \<Rightarrow> string \<Rightarrow> string \<Rightarrow> 'w \<Rightarrow> panic + (error option \<times> 'w)" where
  "CompositeHandler_Send Handlers name value w =
     (if Handlers = [] then Inl IndexOutOfRange
      else
        let (err, w1) = Send (Handlers ! 0) name value w
        in if err = None
           then Inr (err, fold (\<lambda>secondary w'. snd (Send secondary name value w'))
                            (drop 1 Handlers) w1)
           else Inr (err, w1))"

text \<open>
  To speak of which handlers were invoked, a handler is wrapped so that each \<open>Send\<close>
  it receives is appended to a log, with the handler's position and the arguments.
\<close>

type_synonym invocation = "nat \<times> string \<times> string"

definition logged :: "nat \<Rightarrow> 'w ActivityHandler \<Rightarrow> ('w \<times> invocation list) ActivityHandler" where
  "logged i h =
     \<lparr>Send = (\<lambda>name value (w, log).
                 let (err, w') = Send h name value w in (err, (w', log @ [(i, name, value)]))),
      Receive = (\<lambda>name (w, log). let (r, w') = Receive h name w in (r, (w', log))),
      Close = (\<lambda>(w, log). (Close h w, log))\<rparr>"

definition logged_all :: "'w ActivityHandler list \<Rightarrow> ('w \<times> invocation list) ActivityHandler list" where
  "logged_all hs = map (\<lambda>(i, h). logged i h) (enumerate 0 hs)"

section \<open>Example inputs\<close>

text \<open>A listener and a backend server that refer to policies, and a policy.\<close>

definition http_listener :: "string list \<Rightarrow> ActivityLoadBalancerListener" where
  "http_listener names =
     \<lparr>Protocol = ''HTTP'', LoadBalancerPort = 8080, InstanceProtocol = '''',
      ListenerInstancePort = 8080, ListenerPolicyNames = names\<rparr>"

definition backend_server :: "string list \<Rightarrow> ActivityBackendServer" where
  "backend_server names = \<lparr>InstancePort = 8080, PolicyNames = names\<rparr>"

definition stickiness_policy :: "string \<Rightarrow> ActivityPolicy" where
  "stickiness_policy name =
     \<lparr>PolicyName = name, PolicyTypeName = ''LBCookieStickinessPolicyType'',
      PolicyAttributes = [\<lparr>AttributeName = ''CookieExpirationPeriod'', AttributeValue = ''300''\<rparr>]\<rparr>"

text \<open>A snapshot of one load balancer whose only listener and only backend server refer
  to the given names, and an engine whose registry holds a policy for each given name.\<close>

definition load_balancer :: "string list \<Rightarrow> string list \<Rightarrow> ActivityLoadBalancer" where
  "load_balancer listenerNames backendNames =
     zero_ActivityLoadBalancer
       \<lparr>Listeners := [http_listener listenerNames],
        BackendServers := [backend_server backendNames]\<rparr>"

definition engine_with :: "string list \<Rightarrow> engine" where
  "engine_with names =
     \<lparr>Policies = map_of (map (\<lambda>name. (name, stickiness_policy name)) names), calls = []\<rparr>"

text \<open>A runtime whose decoder yields the given snapshot, whose parser takes any text as
  its own parse and leaves it as it is, and whose \<open>range\<close> yields the given order.\<close>

definition decoding :: "ActivityDescriptions \<Rightarrow> string list \<Rightarrow> string runtime" where
  "decoding d order =
     \<lparr>ActivityDescriptionsString = (\<lambda>text. Inr d),
      HaproxyConfigurationString = (\<lambda>text. Inr text),
      UpdateConfiguration = (\<lambda>cfg loadBalancer. Inr cfg),
      String = (\<lambda>cfg. cfg),
      rangeOrder = order\<rparr>"

definition handler_with :: "(string \<Rightarrow> error option) \<Rightarrow> HaproxyConfigurationHandler" where
  "handler_with receiver = \<lparr>TemplateSupplier = Inr ''global'', ConfigurationReceiver = receiver\<rparr>"

text \<open>Two handlers over a world that counts the values delivered: one that fails and
  delivers nothing, one that delivers.\<close>

definition failing_handler :: "nat ActivityHandler" where
  "failing_handler =
     \<lparr>Send = (\<lambda>name value w. (Some (Error ''connection refused''), w)),
      Receive = (\<lambda>name w. (Inl (Error ''connection refused''), w)),
      Close = (\<lambda>w. w)\<rparr>"

definition delivering_handler :: "nat ActivityHandler" where
  "delivering_handler =
     \<lparr>Send = (\<lambda>name value w. (None, Suc w)),
      Receive = (\<lambda>name w. (Inr '''', w)),
      Close = (\<lambda>w. w)\<rparr>"

section \<open>The digest and the hash pattern\<close>

lemma length_be_bytes32: "length (be_bytes32 w) = 4"
  by (simp add: be_bytes32_def)

lemma length_sha1_Sum: "length (sha1_Sum msg) = 20"
  by (simp add: sha1_Sum_def length_be_bytes32 split: prod.splits)

lemma isHexDigit_hexdigit: "isHexDigit (hexdigit n)"
proof -
  have "list_all isHexDigit ''0123456789abcdef''"
    by (simp add: isHexDigit_def)
  moreover have "n mod 16 < length ''0123456789abcdef''" by simp
  ultimately show ?thesis
    unfolding hexdigit_def list_all_length by blast
qed

lemma length_concat_hex: "length (concat (map hex_byte bs)) = 2 * length bs"
  by (induction bs) (simp_all add: hex_byte_def)

lemma hex_concat_hex: "list_all isHexDigit (concat (map hex_byte bs))"
  by (induction bs) (simp_all add: hex_byte_def isHexDigit_hexdigit)

lemma length_sha1_hex: "length (sha1_hex v) = 40"
  by (simp add: sha1_hex_def length_concat_hex length_sha1_Sum)

lemma hex_sha1_hex: "list_all isHexDigit (sha1_hex v)"
  by (simp add: sha1_hex_def hex_concat_hex)

lemma MatchString_hex40_run:
  assumes "length run = 40" and "list_all isHexDigit run"
  shows "MatchString_hex40 (pre @ run @ post)"
proof -
  have "length pre \<in> set [0..<Suc (length (pre @ run @ post))]" by simp
  moreover have "length pre + 40 \<le> length (pre @ run @ post)"
    using assms(1) by simp
  moreover have "take 40 (drop (length pre) (pre @ run @ post)) = run"
    using assms(1) by simp
  ultimately show ?thesis
    unfolding MatchString_hex40_def list_ex_iff using assms(2) by metis
qed

lemma MatchString_hex40_sha1_hex: "MatchString_hex40 (sha1_hex v)"
  using MatchString_hex40_run [of "sha1_hex v" "[]" "[]"]
  by (simp add: length_sha1_hex hex_sha1_hex)

lemma MatchString_hex40_D:
  "MatchString_hex40 s \<Longrightarrow> \<exists>pre run post. s = pre @ run @ post \<and> length run = 40 \<and> list_all isHexDigit run"
proof -
  assume "MatchString_hex40 s"
  then obtain i where i: "i + 40 \<le> length s" "list_all isHexDigit (take 40 (drop i s))"
    unfolding MatchString_hex40_def list_ex_iff by auto
  have "s = take i s @ take 40 (drop i s) @ drop 40 (drop i s)"
    by (simp only: append_take_drop_id)
  moreover have "length (take 40 (drop i s)) = 40" using i(1) by simp
  ultimately show ?thesis using i(2) by blast
qed

lemma Second_range: "0 \<le> Second t \<and> Second t < 60"
  by (simp add: Second_def)

lemma not_staleKey: "\<not> staleKey timeNow cachedValue"
  using Second_range [of timeNow] Second_range [of "Time cachedValue"]
  by (simp add: staleKey_def ActivityCacheSeconds_def)

lemma cacheMaintain_id: "cacheMaintain activity timeNow caches = caches"
proof (cases "caches activity")
  case None
  then show ?thesis by (simp add: cacheMaintain_def)
next
  case (Some valueCache)
  have "(\<lambda>key. case valueCache key of None \<Rightarrow> None
              | Some cachedValue \<Rightarrow> if staleKey timeNow cachedValue then None else Some cachedValue)
        = valueCache"
    by (rule ext) (simp add: not_staleKey split: option.splits)
  with Some show ?thesis by (simp add: cacheMaintain_def map_upd_triv)
qed

section \<open>The value cache\<close>

lemma activityValueCache_literal:
  assumes "\<not> MatchString_hex40 v" and "v \<noteq> ''''" and "caches activity = Some vc"
  shows "activityValueCache activity v timeNow caches =
           Inr (v, caches(activity \<mapsto> vc(sha1_hex v \<mapsto> \<lparr>Time = timeNow, Value = v\<rparr>)))"
  using assms by (simp add: activityValueCache_def cacheMaintain_id)

lemma activityValueCache_empty_literal:
  assumes "\<not> MatchString_hex40 v" and "v = ''''"
  shows "activityValueCache activity v timeNow caches = Inr ('''', caches)"
  using assms by (simp add: activityValueCache_def cacheMaintain_id)

lemma activityValueCache_nil_map:
  assumes "\<not> MatchString_hex40 v" and "v \<noteq> ''''" and "caches activity = None"
  shows "activityValueCache activity v timeNow caches = Inl AssignmentToNilMap"
  using assms by (simp add: activityValueCache_def)

lemma activityValueCache_miss:
  assumes "MatchString_hex40 v" and "nilable (caches activity) v = None"
  shows "activityValueCache activity v timeNow caches = Inr ('''', caches)"
  using assms by (simp add: activityValueCache_def cacheMaintain_id)

lemma activityValueCache_hit:
  assumes "MatchString_hex40 v" and "caches activity = Some vc" and "vc v = Some cv"
  shows "activityValueCache activity v timeNow caches =
           (if Value cv = '''' then Inr ('''', caches)
            else Inr (Value cv, caches(activity \<mapsto> vc(v \<mapsto> \<lparr>Time = timeNow, Value = Value cv\<rparr>))))"
  using assms by (simp add: activityValueCache_def cacheMaintain_id nilable_def)

lemma nilable_hit:
  "nilable m k = Some cv \<Longrightarrow> \<exists>vc. m = Some vc \<and> vc k = Some cv"
  by (cases m) (simp_all add: nilable_def)

lemma key_is_digest_initial: "key_is_digest ActivityValuesBySha1_init"
  by (auto simp: key_is_digest_def ActivityValuesBySha1_init_def split: if_splits)

lemma key_is_digest_update:
  assumes "key_is_digest caches" and "caches activity = Some vc"
  shows "key_is_digest (caches(activity \<mapsto> vc(sha1_hex v \<mapsto> \<lparr>Time = t, Value = v\<rparr>)))"
  using assms unfolding key_is_digest_def
  by (auto split: if_splits)

lemma key_is_digest_activityValueCache:
  assumes inv: "key_is_digest caches"
    and call: "activityValueCache activity v timeNow caches = Inr (result, caches')"
  shows "key_is_digest caches'"
proof (cases "MatchString_hex40 v")
  case False
  show ?thesis
  proof (cases "v = ''''")
    case True
    with False call inv show ?thesis
      by (simp add: activityValueCache_empty_literal)
  next
    case nonempty: False
    show ?thesis
    proof (cases "caches activity")
      case None
      with False nonempty call show ?thesis
        by (simp add: activityValueCache_nil_map)
    next
      case (Some vc)
      with False nonempty call have "caches' = caches(activity \<mapsto> vc(sha1_hex v \<mapsto> \<lparr>Time = timeNow, Value = v\<rparr>))"
        by (auto simp: activityValueCache_literal)
      with inv Some show ?thesis by (simp add: key_is_digest_update)
    qed
  qed
next
  case True
  show ?thesis
  proof (cases "nilable (caches activity) v")
    case None
    with True call inv show ?thesis by (simp add: activityValueCache_miss)
  next
    case (Some cv)
    then obtain vc where vc: "caches activity = Some vc" "vc v = Some cv"
      using nilable_hit by blast
    then have key: "v = sha1_hex (Value cv)"
      using inv unfolding key_is_digest_def by blast
    show ?thesis
    proof (cases "Value cv = ''''")
      case True
      with \<open>MatchString_hex40 v\<close> vc call inv show ?thesis
        by (simp add: activityValueCache_hit)
    next
      case False
      with \<open>MatchString_hex40 v\<close> vc call
      have "caches' = caches(activity \<mapsto> vc(v \<mapsto> \<lparr>Time = timeNow, Value = Value cv\<rparr>))"
        by (auto simp: activityValueCache_hit)
      then have "caches' = caches(activity \<mapsto> vc(sha1_hex (Value cv) \<mapsto> \<lparr>Time = timeNow, Value = Value cv\<rparr>))"
        using key by simp
      with inv vc(1) show ?thesis by (simp only: key_is_digest_update)
    qed
  qed
qed

text \<open>
  Claim C8. In every reachable state of the per-activity value caches (they start empty
  and change only through \<open>activityValueCache\<close> and \<open>cacheMaintain\<close>), the key of every
  entry is the hex digest of the value the entry stores: storing a literal value, a
  lookup by hash that hits or misses, and the maintenance sweep all preserve this.
\<close>
theorem cache_key_is_digest_of_value:
  "reachable caches \<Longrightarrow> key_is_digest caches"
proof (induction rule: reachable.induct)
  case initial
  show ?case by (rule key_is_digest_initial)
next
  case (cached caches activity "value" timeNow result caches')
  then show ?case by (blast intro: key_is_digest_activityValueCache)
next
  case (maintained caches activity timeNow)
  then show ?case by (simp add: cacheMaintain_id)
qed

lemma short_no_match: "length s < 40 \<Longrightarrow> \<not> MatchString_hex40 s"
  by (auto simp: MatchString_hex40_def list_ex_iff)

text \<open>Witness for C8: the state after one literal value was cached is reachable, and
  its entry is filed under the digest of its value.\<close>
theorem cache_key_is_digest_of_value_witness:
  "reachable (ActivityValuesBySha1_init(''LoadBalancingVmActivities.setPolicy'' \<mapsto>
            [sha1_hex ''<policy/>'' \<mapsto> \<lparr>Time = 0, Value = ''<policy/>''\<rparr>])) \<and>
   key_is_digest (ActivityValuesBySha1_init(''LoadBalancingVmActivities.setPolicy'' \<mapsto>
            [sha1_hex ''<policy/>'' \<mapsto> \<lparr>Time = 0, Value = ''<policy/>''\<rparr>]))"
proof -
  have a: "ActivityValuesBySha1_init ''LoadBalancingVmActivities.setPolicy'' = Some Map.empty"
    by (simp add: ActivityValuesBySha1_init_def)
  have p: "\<not> MatchString_hex40 ''<policy/>''" by (rule short_no_match) simp
  have "activityValueCache ''LoadBalancingVmActivities.setPolicy'' ''<policy/>'' 0
     ActivityValuesBySha1_init =
     Inr (''<policy/>'',
          ActivityValuesBySha1_init(''LoadBalancingVmActivities.setPolicy'' \<mapsto>
            [sha1_hex ''<policy/>'' \<mapsto> \<lparr>Time = 0, Value = ''<policy/>''\<rparr>]))"
    using activityValueCache_literal [of "''<policy/>''" ActivityValuesBySha1_init
        "''LoadBalancingVmActivities.setPolicy''" Map.empty 0] p a
    by simp
  then have r: "reachable (ActivityValuesBySha1_init(''LoadBalancingVmActivities.setPolicy'' \<mapsto>
            [sha1_hex ''<policy/>'' \<mapsto> \<lparr>Time = 0, Value = ''<policy/>''\<rparr>]))"
    using reachable.cached [OF reachable.initial] by blast
  from cache_key_is_digest_of_value [OF r] r show ?thesis by simp
qed

text \<open>
  Claim C9. The hash pattern is an unanchored substring match: a value that contains a
  run of 40 hexadecimal digits anywhere is taken as a lookup key, not as a literal. The
  call then adds no key to any cache and changes no stored value (so the literal is not
  stored under its own digest); when the whole string is not a key of the activity's
  cache, the result is the empty string and the caches are as before, and when it is a
  key the result is the value filed under it.
\<close>
theorem hex_run_is_lookup_key:
  assumes "length run = 40" and "list_all isHexDigit run"
  shows "\<exists>result caches'.
           activityValueCache activity (pre @ run @ post) timeNow caches = Inr (result, caches') \<and>
           (\<forall>a. dom (nilable (caches' a)) = dom (nilable (caches a))) \<and>
           (\<forall>a key. map_option Value (nilable (caches' a) key) =
                     map_option Value (nilable (caches a) key)) \<and>
           (case nilable (caches activity) (pre @ run @ post) of
              None \<Rightarrow> result = '''' \<and> caches' = caches
            | Some cachedValue \<Rightarrow> result = Value cachedValue)"
proof -
  let ?v = "pre @ run @ post"
  have m: "MatchString_hex40 ?v"
    using assms by (rule MatchString_hex40_run)
  show ?thesis
  proof (cases "nilable (caches activity) ?v")
    case None
    with m show ?thesis by (simp add: activityValueCache_miss)
  next
    case (Some cv)
    then obtain vc where vc: "caches activity = Some vc" "vc ?v = Some cv"
      using nilable_hit by blast
    show ?thesis
    proof (cases "Value cv = ''''")
      case True
      with m vc Some show ?thesis by (simp add: activityValueCache_hit)
    next
      case False
      let ?c = "caches(activity \<mapsto> vc(?v \<mapsto> \<lparr>Time = timeNow, Value = Value cv\<rparr>))"
      have call: "activityValueCache activity ?v timeNow caches = Inr (Value cv, ?c)"
        using m vc False by (simp add: activityValueCache_hit)
      have d: "\<forall>a. dom (nilable (?c a)) = dom (nilable (caches a))"
        using vc by (auto simp: nilable_def split: if_splits)
      have v: "\<forall>a key. map_option Value (nilable (?c a) key) =
                 map_option Value (nilable (caches a) key)"
        using vc by (auto simp: nilable_def)
      from call d v Some show ?thesis by simp
    qed
  qed
qed

text \<open>Witness for C9: an identifier wrapped in markup, on the initial caches.\<close>
theorem hex_run_is_lookup_key_witness:
  "length ''0123456789abcdef0123456789ABCDEF01234567'' = 40 \<and>
   list_all isHexDigit ''0123456789abcdef0123456789ABCDEF01234567'' \<and>
   activityValueCache ''LoadBalancingVmActivities.setPolicy''
     (''<id>'' @ ''0123456789abcdef0123456789ABCDEF01234567'' @ ''</id>'') 7
     ActivityValuesBySha1_init = Inr ('''', ActivityValuesBySha1_init)"
proof -
  have l: "length ''0123456789abcdef0123456789ABCDEF01234567'' = 40" by simp
  have h: "list_all isHexDigit ''0123456789abcdef0123456789ABCDEF01234567''"
    by (simp add: isHexDigit_def)
  have n: "nilable (ActivityValuesBySha1_init ''LoadBalancingVmActivities.setPolicy'')
             (''<id>'' @ ''0123456789abcdef0123456789ABCDEF01234567'' @ ''</id>'') = None"
    by (simp add: ActivityValuesBySha1_init_def nilable_def)
  from hex_run_is_lookup_key [OF l h, of "''LoadBalancingVmActivities.setPolicy''" "''<id>''"
      "''</id>''" 7 ActivityValuesBySha1_init]
  show ?thesis using l h n by auto
qed

text \<open>
  Claim C6, amended. For every activity that has a cache and every non-empty value that
  contains no run of 40 hexadecimal digits, \<open>activityValueCache\<close> returns the value
  itself and files it under its hex digest; a following call with that digest, at any
  time, returns the value.
\<close>
theorem store_then_resolve:
  assumes "caches activity = Some valueCache"
    and "\<not> MatchString_hex40 v" and "v \<noteq> ''''"
  shows "\<exists>caches' caches''.
           activityValueCache activity v t1 caches = Inr (v, caches') \<and>
           nilable (caches' activity) (sha1_hex v) = Some \<lparr>Time = t1, Value = v\<rparr> \<and>
           activityValueCache activity (sha1_hex v) t2 caches' = Inr (v, caches'')"
proof -
  let ?c = "caches(activity \<mapsto> valueCache(sha1_hex v \<mapsto> \<lparr>Time = t1, Value = v\<rparr>))"
  have 1: "activityValueCache activity v t1 caches = Inr (v, ?c)"
    using assms by (simp add: activityValueCache_literal)
  have 2: "nilable (?c activity) (sha1_hex v) = Some \<lparr>Time = t1, Value = v\<rparr>"
    by (simp add: nilable_def)
  have "activityValueCache activity (sha1_hex v) t2 ?c =
          Inr (v, ?c(activity \<mapsto> (valueCache(sha1_hex v \<mapsto> \<lparr>Time = t1, Value = v\<rparr>))
                (sha1_hex v \<mapsto> \<lparr>Time = t2, Value = v\<rparr>)))"
    using assms(3) MatchString_hex40_sha1_hex
      activityValueCache_hit [of "sha1_hex v" ?c activity
        "valueCache(sha1_hex v \<mapsto> \<lparr>Time = t1, Value = v\<rparr>)" "\<lparr>Time = t1, Value = v\<rparr>" t2]
    by simp
  with 1 2 show ?thesis by blast
qed

text \<open>Witness for the amended C6: a short policy document on the initial caches.\<close>
theorem store_then_resolve_witness:
  "ActivityValuesBySha1_init ''LoadBalancingVmActivities.setPolicy'' = Some Map.empty \<and>
   \<not> MatchString_hex40 ''<policy/>'' \<and> ''<policy/>'' \<noteq> '''' \<and>
   (\<exists>caches' caches''.
      activityValueCache ''LoadBalancingVmActivities.setPolicy'' ''<policy/>'' 10
        ActivityValuesBySha1_init = Inr (''<policy/>'', caches') \<and>
      nilable (caches' ''LoadBalancingVmActivities.setPolicy'') (sha1_hex ''<policy/>'') =
        Some \<lparr>Time = 10, Value = ''<policy/>''\<rparr> \<and>
      activityValueCache ''LoadBalancingVmActivities.setPolicy'' (sha1_hex ''<policy/>'') 20
        caches' = Inr (''<policy/>'', caches''))"
proof -
  have a: "ActivityValuesBySha1_init ''LoadBalancingVmActivities.setPolicy'' = Some Map.empty"
    by (simp add: ActivityValuesBySha1_init_def)
  have b: "\<not> MatchString_hex40 ''<policy/>''"
    by (rule short_no_match) simp
  have c: "''<policy/>'' \<noteq> ''''" by simp
  from store_then_resolve [of ActivityValuesBySha1_init "''LoadBalancingVmActivities.setPolicy''"
      Map.empty "''<policy/>''" 10 20] a b c
  show ?thesis by blast
qed

text \<open>
  Counterexample to C6 as stated: the value of 40 letters \<open>a\<close> matches the hash
  pattern, so it is looked up and not stored. The call returns the empty string, which
  is neither the value nor its digest, and leaves the caches as they were; a following
  call with the digest of the value returns the empty string too.
\<close>
theorem store_then_resolve_counterexample:
  "activityValueCache ''LoadBalancingVmActivities.setPolicy''
     ''aaaaaaaaaaaaaaaaaaaaaaaaaaaaaaaaaaaaaaaa'' 10 ActivityValuesBySha1_init
     = Inr ('''', ActivityValuesBySha1_init) \<and>
   activityValueCache ''LoadBalancingVmActivities.setPolicy''
     (sha1_hex ''aaaaaaaaaaaaaaaaaaaaaaaaaaaaaaaaaaaaaaaa'') 20 ActivityValuesBySha1_init
     = Inr ('''', ActivityValuesBySha1_init) \<and>
   '''' \<noteq> sha1_hex ''aaaaaaaaaaaaaaaaaaaaaaaaaaaaaaaaaaaaaaaa'' \<and>
   '''' \<noteq> ''aaaaaaaaaaaaaaaaaaaaaaaaaaaaaaaaaaaaaaaa''"
proof -
  have m: "MatchString_hex40 ''aaaaaaaaaaaaaaaaaaaaaaaaaaaaaaaaaaaaaaaa''"
    using MatchString_hex40_run [of "''aaaaaaaaaaaaaaaaaaaaaaaaaaaaaaaaaaaaaaaa''" "[]" "[]"]
    by (simp add: isHexDigit_def)
  have n: "nilable (ActivityValuesBySha1_init ''LoadBalancingVmActivities.setPolicy'') k = None" for k
    by (simp add: ActivityValuesBySha1_init_def nilable_def)
  have l: "length (sha1_hex ''aaaaaaaaaaaaaaaaaaaaaaaaaaaaaaaaaaaaaaaa'') = 40"
    by (rule length_sha1_hex)
  then have "sha1_hex ''aaaaaaaaaaaaaaaaaaaaaaaaaaaaaaaaaaaaaaaa'' \<noteq> ''''"
    by (metis list.size(3) zero_neq_numeral)
  then show ?thesis
    using activityValueCache_miss [of "''aaaaaaaaaaaaaaaaaaaaaaaaaaaaaaaaaaaaaaaa''"
        ActivityValuesBySha1_init "''LoadBalancingVmActivities.setPolicy''" 10]
      activityValueCache_miss [of "sha1_hex ''aaaaaaaaaaaaaaaaaaaaaaaaaaaaaaaaaaaaaaaa''"
        ActivityValuesBySha1_init "''LoadBalancingVmActivities.setPolicy''" 20]
      m n MatchString_hex40_sha1_hex
    by simp
qed

text \<open>
  Claim C2 fails on the code. A policy document is cached at second 0. At second 1000,
  long after the 300 seconds of \<open>ActivityCacheSeconds\<close>, caching another value leaves
  the first entry's key in the cache, and a lookup of the first entry's digest returns
  the document and refreshes the entry. The cause is \<open>cacheMaintain_id\<close>:
  the sweep compares seconds within the minute, which never differ by more than 59.
\<close>
theorem stale_entry_survives:
  "activityValueCache ''LoadBalancingVmActivities.setPolicy'' ''<policy/>'' 0
     ActivityValuesBySha1_init =
     Inr (''<policy/>'',
          ActivityValuesBySha1_init(''LoadBalancingVmActivities.setPolicy'' \<mapsto>
            [sha1_hex ''<policy/>'' \<mapsto> \<lparr>Time = 0, Value = ''<policy/>''\<rparr>])) \<and>
   activityValueCache ''LoadBalancingVmActivities.setPolicy'' ''<other/>'' 1000
     (ActivityValuesBySha1_init(''LoadBalancingVmActivities.setPolicy'' \<mapsto>
        [sha1_hex ''<policy/>'' \<mapsto> \<lparr>Time = 0, Value = ''<policy/>''\<rparr>])) =
     Inr (''<other/>'',
          ActivityValuesBySha1_init(''LoadBalancingVmActivities.setPolicy'' \<mapsto>
            [sha1_hex ''<policy/>'' \<mapsto> \<lparr>Time = 0, Value = ''<policy/>''\<rparr>,
             sha1_hex ''<other/>'' \<mapsto> \<lparr>Time = 1000, Value = ''<other/>''\<rparr>])) \<and>
   sha1_hex ''<policy/>'' \<in> dom
     [sha1_hex ''<policy/>'' \<mapsto> \<lparr>Time = 0, Value = ''<policy/>''\<rparr>,
      sha1_hex ''<other/>'' \<mapsto> \<lparr>Time = 1000, Value = ''<other/>''\<rparr>] \<and>
   activityValueCache ''LoadBalancingVmActivities.setPolicy'' (sha1_hex ''<policy/>'') 1000
     (ActivityValuesBySha1_init(''LoadBalancingVmActivities.setPolicy'' \<mapsto>
        [sha1_hex ''<policy/>'' \<mapsto> \<lparr>Time = 0, Value = ''<policy/>''\<rparr>])) =
     Inr (''<policy/>'',
          ActivityValuesBySha1_init(''LoadBalancingVmActivities.setPolicy'' \<mapsto>
            [sha1_hex ''<policy/>'' \<mapsto> \<lparr>Time = 1000, Value = ''<policy/>''\<rparr>]))"
proof -
  let ?S = "''LoadBalancingVmActivities.setPolicy''"
  let ?s1 = "ActivityValuesBySha1_init(?S \<mapsto>
        [sha1_hex ''<policy/>'' \<mapsto> \<lparr>Time = 0, Value = ''<policy/>''\<rparr>])"
  have a: "ActivityValuesBySha1_init ?S = Some Map.empty"
    by (simp add: ActivityValuesBySha1_init_def)
  have p: "\<not> MatchString_hex40 ''<policy/>''" by (rule short_no_match) simp
  have q: "\<not> MatchString_hex40 ''<other/>''" by (rule short_no_match) simp
  have 1: "activityValueCache ?S ''<policy/>'' 0 ActivityValuesBySha1_init = Inr (''<policy/>'', ?s1)"
    using activityValueCache_literal [of "''<policy/>''" ActivityValuesBySha1_init ?S Map.empty 0] p a
    by simp
  have 2: "activityValueCache ?S ''<other/>'' 1000 ?s1 =
     Inr (''<other/>'', ActivityValuesBySha1_init(?S \<mapsto>
            [sha1_hex ''<policy/>'' \<mapsto> \<lparr>Time = 0, Value = ''<policy/>''\<rparr>,
             sha1_hex ''<other/>'' \<mapsto> \<lparr>Time = 1000, Value = ''<other/>''\<rparr>]))"
    using activityValueCache_literal [of "''<other/>''" ?s1 ?S
        "[sha1_hex ''<policy/>'' \<mapsto> \<lparr>Time = 0, Value = ''<policy/>''\<rparr>]" 1000] q
    by simp
  have 3: "activityValueCache ?S (sha1_hex ''<policy/>'') 1000 ?s1 =
     Inr (''<policy/>'', ActivityValuesBySha1_init(?S \<mapsto>
            [sha1_hex ''<policy/>'' \<mapsto> \<lparr>Time = 1000, Value = ''<policy/>''\<rparr>]))"
    using activityValueCache_hit [of "sha1_hex ''<policy/>''" ?s1 ?S
        "[sha1_hex ''<policy/>'' \<mapsto> \<lparr>Time = 0, Value = ''<policy/>''\<rparr>]"
        "\<lparr>Time = 0, Value = ''<policy/>''\<rparr>" 1000] MatchString_hex40_sha1_hex
    by simp
  from 1 2 3 show ?thesis by simp
qed

section \<open>The policy registry and the load-balancer update\<close>

lemma fold_names:
  "fold (\<lambda>policyName m. m(policyName \<mapsto> policyName)) xs m =
     (\<lambda>k. if k \<in> set xs then Some k else m k)"
  by (induction xs arbitrary: m) (auto simp: fun_eq_iff)

lemma fold_fold_concat:
  "fold (\<lambda>x. fold f (g x)) xs m = fold f (concat (map g xs)) m"
  by (induction xs arbitrary: m) simp_all

lemma activePolicyNames_eq:
  "activePolicyNames lb = (\<lambda>k. if k \<in> set (scanPolicyNames lb) then Some k else None)"
  unfolding activePolicyNames_def scanPolicyNames_def fold_fold_concat fold_names
  by (auto simp: fun_eq_iff)

lemma dom_activePolicyNames: "dom (activePolicyNames lb) = set (scanPolicyNames lb)"
  by (auto simp: activePolicyNames_eq dom_def)

lemma iterates_activePolicyNames:
  "iterates ks (activePolicyNames lb) \<longleftrightarrow> distinct ks \<and> set ks = set (scanPolicyNames lb)"
  by (simp add: iterates_def dom_activePolicyNames)

lemma map_filter_names:
  "set ks \<subseteq> set (scanPolicyNames lb) \<Longrightarrow> List.map_filter (activePolicyNames lb) ks = ks"
  by (induction ks) (simp_all add: List.map_filter_simps activePolicyNames_eq)

lemma range_values:
  "iterates ks (activePolicyNames lb) \<Longrightarrow> List.map_filter (activePolicyNames lb) ks = ks"
  by (simp add: iterates_activePolicyNames map_filter_names)

lemma attachPolicies_all_found:
  "\<forall>k \<in> set ks. policies k \<noteq> None \<Longrightarrow>
   attachPolicies policies ks lb =
     Inr (lb\<lparr>PolicyDescriptions := PolicyDescriptions lb @ map (\<lambda>k. the (policies k)) ks\<rparr>)"
proof (induction ks arbitrary: lb)
  case Nil
  then show ?case by simp
next
  case (Cons k ks)
  then obtain p where p: "policies k = Some p" by auto
  from Cons.prems have "\<forall>k \<in> set ks. policies k \<noteq> None" by simp
  from Cons.IH [OF this] p show ?case by simp
qed

lemma map_Some_the:
  "\<forall>k \<in> set ks. policies k \<noteq> None \<Longrightarrow> map Some (map (\<lambda>k. the (policies k)) ks) = map policies ks"
  by (induction ks) auto

lemma attachPolicies_found:
  assumes "\<forall>k \<in> set ks. policies k \<noteq> None"
  shows "\<exists>lb'. attachPolicies policies ks lb = Inr lb' \<and>
         map Some (PolicyDescriptions lb') = map Some (PolicyDescriptions lb) @ map policies ks"
  using attachPolicies_all_found [OF assms, of lb] map_Some_the [OF assms] by simp

lemma attachPolicies_missing:
  "\<exists>k \<in> set ks. policies k = None \<Longrightarrow>
   \<exists>p \<in> set ks. policies p = None \<and>
      attachPolicies policies ks lb = Inl (Error (''policy not found '' @ p))"
proof (induction ks arbitrary: lb)
  case Nil
  then show ?case by simp
next
  case (Cons k ks)
  show ?case
  proof (cases "policies k")
    case None
    then show ?thesis by simp
  next
    case (Some p)
    with Cons.prems have "\<exists>k \<in> set ks. policies k = None" by auto
    from Cons.IH [OF this] Some show ?thesis by auto
  qed
qed

lemma RetainOnly_restrict:
  "RetainOnly retainKeys policies = policies |` dom retainKeys"
  by (auto simp: RetainOnly_def restrict_map_def fun_eq_iff)

lemma Policies_called [simp]: "Policies (called c st) = Policies st"
  by (simp add: called_def)

lemma Policies_WriteConfiguration:
  "Policies (snd (WriteConfiguration handler rt lb st)) = Policies st"
  by (simp add: WriteConfiguration_def Let_def split: sum.splits)

lemma calls_WriteConfiguration:
  "\<exists>rest. calls (snd (WriteConfiguration handler rt lb st)) =
           calls st @ Call_TemplateSupplier # rest"
  by (simp add: WriteConfiguration_def called_def Let_def split: sum.splits)

lemma load_balancer_only_iff:
  "load_balancer_only d \<longleftrightarrow>
     length (LoadBalancers d) = 1 \<and> length (PolicyDescriptions (LoadBalancers d ! 0)) = 0"
  by (auto simp: load_balancer_only_def split: list.splits)

lemma scan_load_balancer [simp]:
  "scanPolicyNames (load_balancer ln bn) = ln @ bn"
  by (simp add: scanPolicyNames_def load_balancer_def http_listener_def backend_server_def)

lemma PolicyDescriptions_load_balancer [simp]:
  "PolicyDescriptions (load_balancer ln bn) = []"
  by (simp add: load_balancer_def zero_ActivityLoadBalancer_def)

lemma HandleLoadBalancer_resolved:
  assumes "ActivityDescriptionsString rt text = Inr d"
    and "load_balancer_only d"
    and "iterates (rangeOrder rt) (activePolicyNames (LoadBalancers d ! 0))"
    and "\<forall>n \<in> set (scanPolicyNames (LoadBalancers d ! 0)). Policies st n \<noteq> None"
  shows "\<exists>lb'. attachPolicies (Policies st) (rangeOrder rt) (LoadBalancers d ! 0) = Inr lb' \<and>
           HandleLoadBalancer handler rt text st =
             WriteConfiguration handler rt lb'
               (st\<lparr>Policies := Policies st |` set (scanPolicyNames (LoadBalancers d ! 0))\<rparr>)"
proof -
  let ?lb = "LoadBalancers d ! 0"
  have ks: "List.map_filter (activePolicyNames ?lb) (rangeOrder rt) = rangeOrder rt"
    using assms(3) by (rule range_values)
  have "\<forall>k \<in> set (rangeOrder rt). Policies st k \<noteq> None"
    using assms(3,4) by (simp add: iterates_activePolicyNames)
  then obtain lb' where lb': "attachPolicies (Policies st) (rangeOrder rt) ?lb = Inr lb'"
    using attachPolicies_found by blast
  have "RetainOnly (activePolicyNames ?lb) (Policies st) =
          Policies st |` set (scanPolicyNames ?lb)"
    by (simp add: RetainOnly_restrict dom_activePolicyNames)
  with lb' ks assms(1,2) show ?thesis
    by (simp add: HandleLoadBalancer_def load_balancer_only_iff Let_def)
qed

text \<open>
  Claim C1, amended. For every load-balancer update whose referenced policies all
  resolve, \<open>RetainOnly\<close> runs before the configuration is written: whether template
  loading, parsing, section writing and emission then succeed or fail, the registry
  afterwards holds exactly the entries it held before whose names the load balancer
  refers to, and writing the configuration was begun after that.
\<close>
theorem registry_collected_before_writing:
  assumes "ActivityDescriptionsString rt text = Inr d"
    and "load_balancer_only d"
    and "iterates (rangeOrder rt) (activePolicyNames (LoadBalancers d ! 0))"
    and "\<forall>n \<in> set (scanPolicyNames (LoadBalancers d ! 0)). Policies st n \<noteq> None"
  shows "Policies (snd (HaproxyConfigurationHandler_Send handler rt ''set-loadbalancer'' text st)) =
           Policies st |` set (scanPolicyNames (LoadBalancers d ! 0)) \<and>
         (\<exists>rest. calls (snd (HaproxyConfigurationHandler_Send handler rt ''set-loadbalancer''
                              text st)) =
                  calls st @ Call_TemplateSupplier # rest)"
proof -
  from HandleLoadBalancer_resolved [OF assms, of handler]
  obtain lb' where lb': "HandleLoadBalancer handler rt text st =
             WriteConfiguration handler rt lb'
               (st\<lparr>Policies := Policies st |` set (scanPolicyNames (LoadBalancers d ! 0))\<rparr>)"
    by blast
  have "Policies (snd (HandleLoadBalancer handler rt text st)) =
          Policies st |` set (scanPolicyNames (LoadBalancers d ! 0))"
    unfolding lb' Policies_WriteConfiguration by simp
  moreover have "\<exists>rest. calls (snd (HandleLoadBalancer handler rt text st)) =
                   calls st @ Call_TemplateSupplier # rest"
    unfolding lb'
    using calls_WriteConfiguration [of handler rt lb'
        "st\<lparr>Policies := Policies st |` set (scanPolicyNames (LoadBalancers d ! 0))\<rparr>"]
    by simp
  ultimately show ?thesis
    by (simp add: HaproxyConfigurationHandler_Send_def)
qed

text \<open>Witness for the amended C1: the registry holds A and B, the load balancer refers
  to A.\<close>
theorem registry_collected_before_writing_witness:
  "ActivityDescriptionsString
     (decoding \<lparr>LoadBalancers = [load_balancer [''A''] []]\<rparr> [''A'']) ''<member/>'' =
     Inr \<lparr>LoadBalancers = [load_balancer [''A''] []]\<rparr> \<and>
   load_balancer_only \<lparr>LoadBalancers = [load_balancer [''A''] []]\<rparr> \<and>
   iterates [''A''] (activePolicyNames (load_balancer [''A''] [])) \<and>
   Policies (engine_with [''A'', ''B'']) ''A'' \<noteq> None \<and>
   Policies
     (snd (HaproxyConfigurationHandler_Send (handler_with (\<lambda>text. None))
             (decoding \<lparr>LoadBalancers = [load_balancer [''A''] []]\<rparr> [''A''])
             ''set-loadbalancer'' ''<member/>'' (engine_with [''A'', ''B''])))
     = Policies (engine_with [''A'', ''B'']) |` {''A''}"
proof -
  let ?d = "\<lparr>LoadBalancers = [load_balancer [''A''] []]\<rparr>"
  let ?rt = "decoding ?d [''A'']"
  have 1: "ActivityDescriptionsString ?rt ''<member/>'' = Inr ?d"
    by (simp add: decoding_def)
  have 2: "load_balancer_only ?d"
    by (simp add: load_balancer_only_def)
  have 3: "iterates (rangeOrder ?rt) (activePolicyNames (LoadBalancers ?d ! 0))"
    by (simp add: iterates_activePolicyNames decoding_def)
  have 4: "\<forall>n \<in> set (scanPolicyNames (LoadBalancers ?d ! 0)).
             Policies (engine_with [''A'', ''B'']) n \<noteq> None"
    by (simp add: engine_with_def)
  from registry_collected_before_writing [OF 1 2 3 4, of "handler_with (\<lambda>text. None)"] 1 2 3 4
  show ?thesis by (simp add: decoding_def)
qed

text \<open>
  Counterexample to C1 as stated: the registry holds A and B, the load balancer refers
  to A, and the configuration receiver fails. The update returns the receiver's error,
  and B is gone from the registry all the same.
\<close>
theorem gc_after_emission_counterexample:
  "iterates [''A''] (activePolicyNames (load_balancer [''A''] [])) \<and>
   fst (HaproxyConfigurationHandler_Send (handler_with (\<lambda>text. Some (Error ''disk full'')))
          (decoding \<lparr>LoadBalancers = [load_balancer [''A''] []]\<rparr> [''A''])
          ''set-loadbalancer'' ''<member/>'' (engine_with [''A'', ''B'']))
     = Some (Error ''disk full'') \<and>
   Policies (engine_with [''A'', ''B'']) ''B'' = Some (stickiness_policy ''B'') \<and>
   Policies
     (snd (HaproxyConfigurationHandler_Send (handler_with (\<lambda>text. Some (Error ''disk full'')))
             (decoding \<lparr>LoadBalancers = [load_balancer [''A''] []]\<rparr> [''A''])
             ''set-loadbalancer'' ''<member/>'' (engine_with [''A'', ''B''])))
     ''B'' = None"
proof -
  let ?d = "\<lparr>LoadBalancers = [load_balancer [''A''] []]\<rparr>"
  let ?rt = "decoding ?d [''A'']"
  let ?h = "handler_with (\<lambda>text. Some (Error ''disk full''))"
  let ?st = "engine_with [''A'', ''B'']"
  have 1: "ActivityDescriptionsString ?rt ''<member/>'' = Inr ?d"
    by (simp add: decoding_def)
  have 2: "load_balancer_only ?d"
    by (simp add: load_balancer_only_def)
  have 3: "iterates (rangeOrder ?rt) (activePolicyNames (LoadBalancers ?d ! 0))"
    by (simp add: iterates_activePolicyNames decoding_def)
  have 4: "\<forall>n \<in> set (scanPolicyNames (LoadBalancers ?d ! 0)). Policies ?st n \<noteq> None"
    by (simp add: engine_with_def)
  from HandleLoadBalancer_resolved [OF 1 2 3 4, of ?h]
  obtain lb' where lb': "HandleLoadBalancer ?h ?rt ''<member/>'' ?st =
      WriteConfiguration ?h ?rt lb'
        (?st\<lparr>Policies := Policies ?st |` set (scanPolicyNames (LoadBalancers ?d ! 0))\<rparr>)"
    by blast
  have f: "fst (WriteConfiguration ?h ?rt lb' st) = Some (Error ''disk full'')" for st
    by (simp add: WriteConfiguration_def decoding_def handler_with_def)
  have "Policies (snd (HandleLoadBalancer ?h ?rt ''<member/>'' ?st)) ''B'' = None"
    unfolding lb' Policies_WriteConfiguration by (simp add: engine_with_def)
  moreover have "fst (HandleLoadBalancer ?h ?rt ''<member/>'' ?st) = Some (Error ''disk full'')"
    unfolding lb' by (rule f)
  moreover have "Policies ?st ''B'' = Some (stickiness_policy ''B'')"
    by (simp add: engine_with_def)
  moreover have "iterates [''A''] (activePolicyNames (load_balancer [''A''] []))"
    by (simp add: iterates_activePolicyNames)
  ultimately show ?thesis
    by (simp add: HaproxyConfigurationHandler_Send_def)
qed

text \<open>
  Claim C3. For every load-balancer update that refers to at least one policy name the
  registry does not hold, the update fails with the error \<open>policy not found\<close> naming a
  referenced name that is missing, and the engine is as before: the registry has its
  earlier contents and no call to the template supplier, the parser or the
  configuration receiver was made.
\<close>
theorem missing_policy_fails_closed:
  assumes "ActivityDescriptionsString rt text = Inr d"
    and "load_balancer_only d"
    and "iterates (rangeOrder rt) (activePolicyNames (LoadBalancers d ! 0))"
    and "\<exists>n \<in> set (scanPolicyNames (LoadBalancers d ! 0)). Policies st n = None"
  shows "\<exists>p \<in> set (scanPolicyNames (LoadBalancers d ! 0)).
           Policies st p = None \<and>
           HaproxyConfigurationHandler_Send handler rt ''set-loadbalancer'' text st =
             (Some (Error (''policy not found '' @ p)), st)"
proof -
  let ?lb = "LoadBalancers d ! 0"
  have ks: "List.map_filter (activePolicyNames ?lb) (rangeOrder rt) = rangeOrder rt"
    using assms(3) by (rule range_values)
  have s: "set (rangeOrder rt) = set (scanPolicyNames ?lb)"
    using assms(3) by (simp add: iterates_activePolicyNames)
  with assms(4) have "\<exists>k \<in> set (rangeOrder rt). Policies st k = None" by simp
  from attachPolicies_missing [OF this, of ?lb]
  obtain p where p: "p \<in> set (rangeOrder rt)" "Policies st p = None"
    "attachPolicies (Policies st) (rangeOrder rt) ?lb = Inl (Error (''policy not found '' @ p))"
    by blast
  have "HandleLoadBalancer handler rt text st = (Some (Error (''policy not found '' @ p)), st)"
    using assms(1,2) ks p(3)
    by (simp add: HandleLoadBalancer_def load_balancer_only_iff Let_def)
  with p(1,2) s show ?thesis
    by (auto simp: HaproxyConfigurationHandler_Send_def)
qed

text \<open>Witness for C3: the load balancer refers to A and B, the registry holds only A.\<close>
theorem missing_policy_fails_closed_witness:
  "ActivityDescriptionsString
     (decoding \<lparr>LoadBalancers = [load_balancer [''A''] [''B'']]\<rparr> [''A'', ''B'']) ''<member/>'' =
     Inr \<lparr>LoadBalancers = [load_balancer [''A''] [''B'']]\<rparr> \<and>
   load_balancer_only \<lparr>LoadBalancers = [load_balancer [''A''] [''B'']]\<rparr> \<and>
   iterates [''A'', ''B''] (activePolicyNames (load_balancer [''A''] [''B''])) \<and>
   Policies (engine_with [''A'']) ''B'' = None \<and>
   HaproxyConfigurationHandler_Send (handler_with (\<lambda>text. None))
     (decoding \<lparr>LoadBalancers = [load_balancer [''A''] [''B'']]\<rparr> [''A'', ''B''])
     ''set-loadbalancer'' ''<member/>'' (engine_with [''A'']) =
     (Some (Error ''policy not found B''), engine_with [''A''])"
proof -
  let ?d = "\<lparr>LoadBalancers = [load_balancer [''A''] [''B'']]\<rparr>"
  let ?rt = "decoding ?d [''A'', ''B'']"
  have 1: "ActivityDescriptionsString ?rt ''<member/>'' = Inr ?d"
    by (simp add: decoding_def)
  have 2: "load_balancer_only ?d"
    by (simp add: load_balancer_only_def)
  have 3: "iterates (rangeOrder ?rt) (activePolicyNames (LoadBalancers ?d ! 0))"
    by (simp add: iterates_activePolicyNames decoding_def)
  have 4: "\<exists>n \<in> set (scanPolicyNames (LoadBalancers ?d ! 0)).
             Policies (engine_with [''A'']) n = None"
    by (simp add: engine_with_def)
  have 5: "Policies (engine_with [''A'']) ''A'' \<noteq> None"
    by (simp add: engine_with_def)
  from missing_policy_fails_closed [OF 1 2 3 4, of "handler_with (\<lambda>text. None)"] 5
  have "HaproxyConfigurationHandler_Send (handler_with (\<lambda>text. None)) ?rt
     ''set-loadbalancer'' ''<member/>'' (engine_with [''A'']) =
     (Some (Error ''policy not found B''), engine_with [''A''])"
    by auto
  with 1 2 3 show ?thesis
    by (simp add: decoding_def engine_with_def)
qed

text \<open>
  Claim C4, amended. A decoded snapshot that is neither policy-only nor load-balancer
  is never rejected: under either sink name (and any other) \<open>Send\<close> reports success,
  with no error. Nothing is mutated, with one exception: under \<open>set-policy\<close>, a snapshot
  of one load balancer that carries exactly one policy mixed with other load-balancer
  data has that policy entered into the registry under its name, as a policy-only
  snapshot would; nothing else of the engine changes.
\<close>
theorem other_shapes_are_not_rejected:
  assumes "ActivityDescriptionsString rt text = Inr d"
    and "\<not> policy_only d" and "\<not> load_balancer_only d"
  shows "HaproxyConfigurationHandler_Send handler rt name text st =
           (None,
            if name = ''set-policy'' \<and> one_load_balancer_one_policy d
            then st\<lparr>Policies := (Policies st)
                      (PolicyName (PolicyDescriptions (LoadBalancers d ! 0) ! 0) \<mapsto>
                         PolicyDescriptions (LoadBalancers d ! 0) ! 0)\<rparr>
            else st)"
proof -
  have "HandlePolicy rt text st =
          (None,
           if one_load_balancer_one_policy d
           then st\<lparr>Policies := (Policies st)
                     (PolicyName (PolicyDescriptions (LoadBalancers d ! 0) ! 0) \<mapsto>
                        PolicyDescriptions (LoadBalancers d ! 0) ! 0)\<rparr>
           else st)"
    using assms(1) by (simp add: HandlePolicy_def one_load_balancer_one_policy_def Let_def)
  moreover have "HandleLoadBalancer handler rt text st = (None, st)"
    using assms(1,3) by (auto simp: HandleLoadBalancer_def load_balancer_only_iff)
  ultimately show ?thesis
    by (simp add: HaproxyConfigurationHandler_Send_def)
qed

text \<open>Witness for the amended C4: one load balancer carrying a listener and two
  policies, which \<open>set-policy\<close> leaves the registry without; and one carrying a backend
  server and one policy, which \<open>set-policy\<close> enters into the registry.\<close>
theorem other_shapes_are_not_rejected_witness:
  "\<not> policy_only
       \<lparr>LoadBalancers = [(load_balancer [''A''] [])
          \<lparr>PolicyDescriptions := [stickiness_policy ''A'', stickiness_policy ''B'']\<rparr>]\<rparr> \<and>
   \<not> load_balancer_only
       \<lparr>LoadBalancers = [(load_balancer [''A''] [])
          \<lparr>PolicyDescriptions := [stickiness_policy ''A'', stickiness_policy ''B'']\<rparr>]\<rparr> \<and>
   HaproxyConfigurationHandler_Send (handler_with (\<lambda>text. None))
     (decoding
        \<lparr>LoadBalancers = [(load_balancer [''A''] [])
           \<lparr>PolicyDescriptions := [stickiness_policy ''A'', stickiness_policy ''B'']\<rparr>]\<rparr> [''A''])
     ''set-policy'' ''<member/>'' (engine_with []) = (None, engine_with []) \<and>
   \<not> policy_only
       \<lparr>LoadBalancers = [(load_balancer [] [''A''])
          \<lparr>PolicyDescriptions := [stickiness_policy ''sticky'']\<rparr>]\<rparr> \<and>
   \<not> load_balancer_only
       \<lparr>LoadBalancers = [(load_balancer [] [''A''])
          \<lparr>PolicyDescriptions := [stickiness_policy ''sticky'']\<rparr>]\<rparr> \<and>
   HaproxyConfigurationHandler_Send (handler_with (\<lambda>text. None))
     (decoding
        \<lparr>LoadBalancers = [(load_balancer [] [''A''])
           \<lparr>PolicyDescriptions := [stickiness_policy ''sticky'']\<rparr>]\<rparr> [''A''])
     ''set-policy'' ''<member/>'' (engine_with []) =
     (None, \<lparr>Policies = [''sticky'' \<mapsto> stickiness_policy ''sticky''], calls = []\<rparr>)"
proof -
  let ?d = "\<lparr>LoadBalancers = [(load_balancer [''A''] [])
          \<lparr>PolicyDescriptions := [stickiness_policy ''A'', stickiness_policy ''B'']\<rparr>]\<rparr>"
  let ?m = "\<lparr>LoadBalancers = [(load_balancer [] [''A''])
          \<lparr>PolicyDescriptions := [stickiness_policy ''sticky'']\<rparr>]\<rparr>"
  have 1: "ActivityDescriptionsString (decoding ?d [''A'']) ''<member/>'' = Inr ?d"
    by (simp add: decoding_def)
  have 2: "\<not> policy_only ?d" by (simp add: policy_only_def)
  have 3: "\<not> load_balancer_only ?d" by (simp add: load_balancer_only_def)
  have 4: "\<not> one_load_balancer_one_policy ?d"
    by (simp add: one_load_balancer_one_policy_def)
  have 5: "ActivityDescriptionsString (decoding ?m [''A'']) ''<member/>'' = Inr ?m"
    by (simp add: decoding_def)
  have 6: "\<not> policy_only ?m"
    by (simp add: policy_only_def load_balancer_def zero_ActivityLoadBalancer_def)
  have 7: "\<not> load_balancer_only ?m" by (simp add: load_balancer_only_def)
  have 8: "one_load_balancer_one_policy ?m"
    by (simp add: one_load_balancer_one_policy_def)
  have 9: "PolicyName (stickiness_policy ''sticky'') = ''sticky''"
    by (simp add: stickiness_policy_def)
  from other_shapes_are_not_rejected [OF 1 2 3, of "handler_with (\<lambda>text. None)"
      "''set-policy''" "engine_with []"] 4
  have a: "HaproxyConfigurationHandler_Send (handler_with (\<lambda>text. None))
     (decoding ?d [''A'']) ''set-policy'' ''<member/>'' (engine_with []) = (None, engine_with [])"
    by simp
  from other_shapes_are_not_rejected [OF 5 6 7, of "handler_with (\<lambda>text. None)"
      "''set-policy''" "engine_with []"] 8 9
  have b: "HaproxyConfigurationHandler_Send (handler_with (\<lambda>text. None))
     (decoding ?m [''A'']) ''set-policy'' ''<member/>'' (engine_with []) =
     (None, \<lparr>Policies = [''sticky'' \<mapsto> stickiness_policy ''sticky''], calls = []\<rparr>)"
    by (simp add: engine_with_def)
  from 2 3 6 7 a b show ?thesis by blast
qed

text \<open>
  Counterexample to C4 as stated. A snapshot with no load balancer is not rejected: both
  sinks return the \<open>nil\<close> error. And a snapshot of one load balancer that carries a
  listener and one policy, which is neither policy-only nor load-balancer, is not
  rejected either and does change the registry: sent to \<open>set-policy\<close> on an empty
  registry, it leaves the policy registered.
\<close>
theorem malformed_snapshot_counterexample:
  "\<not> policy_only \<lparr>LoadBalancers = []\<rparr> \<and>
   \<not> load_balancer_only \<lparr>LoadBalancers = []\<rparr> \<and>
   fst (HaproxyConfigurationHandler_Send (handler_with (\<lambda>text. None))
          (decoding \<lparr>LoadBalancers = []\<rparr> [])
          ''set-loadbalancer'' ''<LoadBalancerDescriptions/>'' (engine_with [''A''])) = None \<and>
   fst (HaproxyConfigurationHandler_Send (handler_with (\<lambda>text. None))
          (decoding \<lparr>LoadBalancers = []\<rparr> [])
          ''set-policy'' ''<LoadBalancerDescriptions/>'' (engine_with [''A''])) = None \<and>
   \<not> policy_only
       \<lparr>LoadBalancers = [(load_balancer [''A''] [])
          \<lparr>PolicyDescriptions := [stickiness_policy ''P'']\<rparr>]\<rparr> \<and>
   \<not> load_balancer_only
       \<lparr>LoadBalancers = [(load_balancer [''A''] [])
          \<lparr>PolicyDescriptions := [stickiness_policy ''P'']\<rparr>]\<rparr> \<and>
   Policies (engine_with []) ''P'' = None \<and>
   HaproxyConfigurationHandler_Send (handler_with (\<lambda>text. None))
     (decoding
        \<lparr>LoadBalancers = [(load_balancer [''A''] [])
           \<lparr>PolicyDescriptions := [stickiness_policy ''P'']\<rparr>]\<rparr> [''A''])
     ''set-policy'' ''<member/>'' (engine_with []) =
     (None, \<lparr>Policies = [''P'' \<mapsto> stickiness_policy ''P''], calls = []\<rparr>)"
proof -
  have empty: "\<not> policy_only \<lparr>LoadBalancers = []\<rparr>" "\<not> load_balancer_only \<lparr>LoadBalancers = []\<rparr>"
    "fst (HaproxyConfigurationHandler_Send (handler_with (\<lambda>text. None))
          (decoding \<lparr>LoadBalancers = []\<rparr> [])
          ''set-loadbalancer'' ''<LoadBalancerDescriptions/>'' (engine_with [''A''])) = None"
    "fst (HaproxyConfigurationHandler_Send (handler_with (\<lambda>text. None))
          (decoding \<lparr>LoadBalancers = []\<rparr> [])
          ''set-policy'' ''<LoadBalancerDescriptions/>'' (engine_with [''A''])) = None"
    by (simp_all add: policy_only_def load_balancer_only_def HaproxyConfigurationHandler_Send_def
        HandlePolicy_def HandleLoadBalancer_def decoding_def)
  let ?m = "\<lparr>LoadBalancers = [(load_balancer [''A''] [])
          \<lparr>PolicyDescriptions := [stickiness_policy ''P'']\<rparr>]\<rparr>"
  have 1: "\<not> policy_only ?m"
    by (simp add: policy_only_def load_balancer_def zero_ActivityLoadBalancer_def)
  have 2: "\<not> load_balancer_only ?m" by (simp add: load_balancer_only_def)
  have 3: "Policies (engine_with []) ''P'' = None" by (simp add: engine_with_def)
  have 4: "HaproxyConfigurationHandler_Send (handler_with (\<lambda>text. None))
     (decoding ?m [''A'']) ''set-policy'' ''<member/>'' (engine_with []) =
     (None, \<lparr>Policies = [''P'' \<mapsto> stickiness_policy ''P''], calls = []\<rparr>)"
    by (simp add: HaproxyConfigurationHandler_Send_def HandlePolicy_def decoding_def
        engine_with_def stickiness_policy_def)
  from empty 1 2 3 4 show ?thesis by blast
qed

text \<open>
  Claim C5, amended. For every load-balancer update whose referenced policies all
  resolve, the policies attached to the load balancer are the registry's entries for
  the referenced names, each name once, in the order in which \<open>range\<close> yields the map of
  collected names. That order is any listing of the referenced names without
  repetition; nothing ties it to the scan of listeners and backend servers.
\<close>
theorem attached_policies_in_range_order:
  assumes "iterates ks (activePolicyNames lb)"
    and "\<forall>n \<in> set (scanPolicyNames lb). policies n \<noteq> None"
    and "PolicyDescriptions lb = []"
  shows "\<exists>lb'. attachPolicies policies (List.map_filter (activePolicyNames lb) ks) lb = Inr lb' \<and>
           map Some (PolicyDescriptions lb') = map policies ks \<and>
           distinct ks \<and> set ks = set (scanPolicyNames lb)"
proof -
  have ks: "List.map_filter (activePolicyNames lb) ks = ks"
    using assms(1) by (rule range_values)
  have d: "distinct ks" "set ks = set (scanPolicyNames lb)"
    using assms(1) by (simp_all add: iterates_activePolicyNames)
  with assms(2) have "\<forall>k \<in> set ks. policies k \<noteq> None" by simp
  from attachPolicies_found [OF this, of lb] assms(3) ks d show ?thesis by auto
qed

text \<open>Witness for the amended C5: names a, b on the listener and b, c on the backend
  server, yielded as c, a, b.\<close>
theorem attached_policies_in_range_order_witness:
  "iterates [''c'', ''a'', ''b''] (activePolicyNames (load_balancer [''a'', ''b''] [''b'', ''c''])) \<and>
   Policies (engine_with [''a'', ''b'', ''c'']) ''a'' \<noteq> None \<and>
   Policies (engine_with [''a'', ''b'', ''c'']) ''b'' \<noteq> None \<and>
   Policies (engine_with [''a'', ''b'', ''c'']) ''c'' \<noteq> None \<and>
   (\<exists>lb'. attachPolicies (Policies (engine_with [''a'', ''b'', ''c'']))
            (List.map_filter (activePolicyNames (load_balancer [''a'', ''b''] [''b'', ''c'']))
               [''c'', ''a'', ''b''])
            (load_balancer [''a'', ''b''] [''b'', ''c'']) = Inr lb' \<and>
          PolicyDescriptions lb' =
            [stickiness_policy ''c'', stickiness_policy ''a'', stickiness_policy ''b''])"
proof -
  let ?lb = "load_balancer [''a'', ''b''] [''b'', ''c'']"
  let ?p = "Policies (engine_with [''a'', ''b'', ''c''])"
  have 1: "iterates [''c'', ''a'', ''b''] (activePolicyNames ?lb)"
    by (auto simp: iterates_activePolicyNames)
  have 2: "\<forall>n \<in> set (scanPolicyNames ?lb). ?p n \<noteq> None"
    by (simp add: engine_with_def)
  have 3: "PolicyDescriptions ?lb = []" by simp
  from attached_policies_in_range_order [OF 1 2 3]
  obtain lb' where lb': "attachPolicies ?p
       (List.map_filter (activePolicyNames ?lb) [''c'', ''a'', ''b'']) ?lb = Inr lb'"
    "map Some (PolicyDescriptions lb') = map ?p [''c'', ''a'', ''b'']"
    by blast
  from lb'(2) have "map Some (PolicyDescriptions lb') =
     map Some [stickiness_policy ''c'', stickiness_policy ''a'', stickiness_policy ''b'']"
    by (simp add: engine_with_def)
  then have "PolicyDescriptions lb' =
     [stickiness_policy ''c'', stickiness_policy ''a'', stickiness_policy ''b'']"
    by (simp only: inj_map_eq_map [OF inj_Some])
  with lb'(1) 1 2 show ?thesis by auto
qed

text \<open>
  Counterexample to C5 as stated: the listener refers to a and b, the backend server to
  a, and \<open>range\<close> yields b before a. The policies are attached as b, a, while the order
  of first occurrence in the scan is a, b.
\<close>
theorem first_occurrence_order_counterexample:
  "iterates [''b'', ''a''] (activePolicyNames (load_balancer [''a'', ''b''] [''a''])) \<and>
   attachPolicies (Policies (engine_with [''a'', ''b'']))
     (List.map_filter (activePolicyNames (load_balancer [''a'', ''b''] [''a''])) [''b'', ''a''])
     (load_balancer [''a'', ''b''] [''a'']) =
     Inr ((load_balancer [''a'', ''b''] [''a''])
            \<lparr>PolicyDescriptions := [stickiness_policy ''b'', stickiness_policy ''a'']\<rparr>) \<and>
   first_occurrences [] (scanPolicyNames (load_balancer [''a'', ''b''] [''a''])) = [''a'', ''b'']"
proof -
  let ?lb = "load_balancer [''a'', ''b''] [''a'']"
  have 1: "iterates [''b'', ''a''] (activePolicyNames ?lb)"
    by (auto simp: iterates_activePolicyNames)
  then have 2: "List.map_filter (activePolicyNames ?lb) [''b'', ''a''] = [''b'', ''a'']"
    by (rule range_values)
  have 3: "attachPolicies (Policies (engine_with [''a'', ''b''])) [''b'', ''a''] ?lb =
     Inr (?lb\<lparr>PolicyDescriptions := [stickiness_policy ''b'', stickiness_policy ''a'']\<rparr>)"
    by (simp add: engine_with_def)
  have 4: "first_occurrences [] (scanPolicyNames ?lb) = [''a'', ''b'']"
    by simp
  from 1 2 3 4 show ?thesis by simp
qed

text \<open>
  Claim C10. For every name other than \<open>set-policy\<close> and \<open>set-loadbalancer\<close>, the
  template-file handler's \<open>Send\<close> returns the \<open>nil\<close> error and leaves the engine as it
  was, whatever the value, the decoder and the closures are: the value is not parsed,
  the registry is not touched and no configuration is written.
\<close>
theorem other_names_are_no_ops:
  assumes "name \<noteq> ''set-policy''" and "name \<noteq> ''set-loadbalancer''"
  shows "HaproxyConfigurationHandler_Send handler rt name text st = (None, st)"
  using assms by (simp add: HaproxyConfigurationHandler_Send_def)

text \<open>Witness for C10: the name \<open>get-instance-status\<close>.\<close>
theorem other_names_are_no_ops_witness:
  "''get-instance-status'' \<noteq> ''set-policy'' \<and>
   ''get-instance-status'' \<noteq> ''set-loadbalancer'' \<and>
   HaproxyConfigurationHandler_Send (handler_with (\<lambda>text. Some (Error ''disk full'')))
     (decoding \<lparr>LoadBalancers = [load_balancer [''A''] []]\<rparr> [''A''])
     ''get-instance-status'' ''GetInstanceStatus'' (engine_with [''A'', ''B'']) =
     (None, engine_with [''A'', ''B''])"
  using other_names_are_no_ops [of "''get-instance-status''"
      "handler_with (\<lambda>text. Some (Error ''disk full''))"
      "decoding \<lparr>LoadBalancers = [load_balancer [''A''] []]\<rparr> [''A'']"
      "''GetInstanceStatus''" "engine_with [''A'', ''B'']"]
  by simp

section \<open>The composite handler\<close>

lemma Send_logged:
  "Send (logged i h) name value (w, log) =
     (fst (Send h name value w), (snd (Send h name value w), log @ [(i, name, value)]))"
  by (simp add: logged_def split: prod.splits)

lemma fold_logged_secondaries:
  "fold (\<lambda>secondary w'. snd (Send secondary name value w'))
     (map (\<lambda>(i, h). logged i h) (enumerate k secondaries)) (w, log) =
   (fold (\<lambda>secondary w'. snd (Send secondary name value w')) secondaries w,
    log @ map (\<lambda>i. (i, name, value)) [k..<k + length secondaries])"
proof (induction secondaries arbitrary: k w log)
  case Nil
  show ?case by simp
next
  case (Cons h hs)
  have "[k..<k + length (h # hs)] = k # [Suc k..<Suc k + length hs]"
    by (simp add: upt_rec)
  with Cons [of "Suc k"] show ?case
    by (simp add: Send_logged)
qed

text \<open>
  Claim C7. For every composite handler built from a primary and secondaries: when the
  primary's \<open>Send\<close> fails, the composite returns the primary's error and the only
  invocation logged is the primary's; when the primary's \<open>Send\<close> succeeds, the composite
  reports success whatever the secondaries return, and the primary and then every
  secondary, in order, were invoked once with the same name and value.
\<close>
theorem composite_send_order:
  "(fst (Send primary name value w) \<noteq> None \<longrightarrow>
      CompositeHandler_Send (logged_all (NewCompositeHandler primary secondaries)) name value
        (w, log) =
      Inr (fst (Send primary name value w),
           (snd (Send primary name value w), log @ [(0, name, value)]))) \<and>
   (fst (Send primary name value w) = None \<longrightarrow>
      CompositeHandler_Send (logged_all (NewCompositeHandler primary secondaries)) name value
        (w, log) =
      Inr (None,
           (fold (\<lambda>secondary w'. snd (Send secondary name value w')) secondaries
              (snd (Send primary name value w)),
            log @ map (\<lambda>i. (i, name, value)) [0..<Suc (length secondaries)])))"
proof -
  let ?hs = "logged_all (NewCompositeHandler primary secondaries)"
  have hs: "?hs = logged 0 primary # map (\<lambda>(i, h). logged i h) (enumerate (Suc 0) secondaries)"
    by (simp add: logged_all_def NewCompositeHandler_def)
  have upt: "[0..<Suc (length secondaries)] = 0 # [Suc 0..<Suc 0 + length secondaries]"
    by (simp add: upt_rec)
  show ?thesis
    unfolding hs upt CompositeHandler_Send_def
    by (simp add: Send_logged fold_logged_secondaries)
qed

text \<open>Witness for C7: a failing primary with two secondaries, and a delivering primary
  with a failing and a delivering secondary.\<close>
theorem composite_send_order_witness:
  "fst (Send failing_handler ''set-policy'' ''<member/>'' 0) \<noteq> None \<and>
   CompositeHandler_Send
     (logged_all (NewCompositeHandler failing_handler [delivering_handler, delivering_handler]))
     ''set-policy'' ''<member/>'' (0, []) =
     Inr (Some (Error ''connection refused''), (0, [(0, ''set-policy'', ''<member/>'')])) \<and>
   fst (Send delivering_handler ''set-policy'' ''<member/>'' 0) = None \<and>
   CompositeHandler_Send
     (logged_all (NewCompositeHandler delivering_handler [failing_handler, delivering_handler]))
     ''set-policy'' ''<member/>'' (0, []) =
     Inr (None, (2, [(0, ''set-policy'', ''<member/>''), (1, ''set-policy'', ''<member/>''),
                     (2, ''set-policy'', ''<member/>'')]))"
proof -
  have f: "fst (Send failing_handler ''set-policy'' ''<member/>'' 0) \<noteq> None"
    by (simp add: failing_handler_def)
  have d: "fst (Send delivering_handler ''set-policy'' ''<member/>'' 0) = None"
    by (simp add: delivering_handler_def)
  have u: "[0..<Suc (Suc (Suc 0))] = [0, Suc 0, Suc (Suc 0)]"
    by (simp add: upt_rec)
  from f d u
    composite_send_order [of failing_handler "''set-policy''" "''<member/>''" 0
      "[delivering_handler, delivering_handler]" "[]"]
    composite_send_order [of delivering_handler "''set-policy''" "''<member/>''" 0
      "[failing_handler, delivering_handler]" "[]"]
  show ?thesis
    by (simp add: failing_handler_def delivering_handler_def numeral_2_eq_2)
qed

end
